theory Spec2Isabelle
  imports Complex_Main "HOL-Library.Char_ord" "HOL-Library.List_Lexorder"
begin

section \<open>Python text primitives\<close>

text \<open>
  The orchestration pipeline (\<^verbatim>\<open>orchestrai/workflow.py\<close>, \<^verbatim>\<open>orchestrai/metrics.py\<close>,
  \<^verbatim>\<open>orchestrai/tool_runner.py\<close>, \<^verbatim>\<open>eval/judge.py\<close>) works on Python \<^verbatim>\<open>str\<close> values.
  They are embedded as HOL strings, and the embedding covers ASCII text: the case
  mappings, the whitespace class and the word class below are those of Python on the code
  points 0 to 127.
\<close>

definition ascii_upper :: string where
  "ascii_upper = ''ABCDEFGHIJKLMNOPQRSTUVWXYZ''"

definition ascii_lower :: string where
  "ascii_lower = ''abcdefghijklmnopqrstuvwxyz''"

definition ascii_digits :: string where
  "ascii_digits = ''0123456789''"

text \<open>\<^verbatim>\<open>str.isspace\<close>, \<^verbatim>\<open>str.strip\<close>, \<^verbatim>\<open>str.split\<close> and the pattern \<^verbatim>\<open>\s\<close> agree on
  ASCII: tab, line feed, vertical tab, form feed, carriage return, the four separators
  0x1C to 0x1F, and the space.\<close>

definition py_whitespace :: string where
  "py_whitespace = [CHR 0x09, CHR 0x0A, CHR 0x0B, CHR 0x0C, CHR 0x0D,
                    CHR 0x1C, CHR 0x1D, CHR 0x1E, CHR 0x1F, CHR 0x20]"

definition py_isspace :: "char \<Rightarrow> bool" where
  "py_isspace c = (c \<in> set py_whitespace)"

definition py_isupper :: "char \<Rightarrow> bool" where
  "py_isupper c = (c \<in> set ascii_upper)"

definition py_islower :: "char \<Rightarrow> bool" where
  "py_islower c = (c \<in> set ascii_lower)"

definition lower_char :: "char \<Rightarrow> char" where
  "lower_char c = (case map_of (zip ascii_upper ascii_lower) c of Some d \<Rightarrow> d | None \<Rightarrow> c)"

definition upper_char :: "char \<Rightarrow> char" where
  "upper_char c = (case map_of (zip ascii_lower ascii_upper) c of Some d \<Rightarrow> d | None \<Rightarrow> c)"

definition py_lower :: "string \<Rightarrow> string" where
  "py_lower s = map lower_char s"

definition py_strip :: "string \<Rightarrow> string" where
  "py_strip s = rev (dropWhile py_isspace (rev (dropWhile py_isspace s)))"

text \<open>\<^verbatim>\<open>s.strip(chars)\<close> with an explicit character set.\<close>

definition py_strip_chars :: "string \<Rightarrow> string \<Rightarrow> string" where
  "py_strip_chars chars s =
     rev (dropWhile (\<lambda>c. c \<in> set chars) (rev (dropWhile (\<lambda>c. c \<in> set chars) s)))"

text \<open>\<^verbatim>\<open>str.title\<close>: a letter that follows a letter is lower-cased, any other letter is
  upper-cased, and every other character is kept.\<close>

fun title_from :: "bool \<Rightarrow> string \<Rightarrow> string" where
  "title_from prev [] = []"
| "title_from prev (c # cs) =
     (if py_isupper c \<or> py_islower c
      then (if prev then lower_char c else upper_char c) # title_from True cs
      else c # title_from False cs)"

definition py_title :: "string \<Rightarrow> string" where
  "py_title s = title_from False s"

text \<open>\<^verbatim>\<open>str.split()\<close> with no argument: the maximal runs of non-whitespace characters.\<close>

fun split_from :: "string \<Rightarrow> string \<Rightarrow> string list" where
  "split_from cur [] = (if cur = [] then [] else [rev cur])"
| "split_from cur (c # cs) =
     (if py_isspace c then (if cur = [] then split_from [] cs else rev cur # split_from [] cs)
      else split_from (c # cur) cs)"

definition py_split :: "string \<Rightarrow> string list" where
  "py_split s = split_from [] s"

fun startswith :: "string \<Rightarrow> string \<Rightarrow> bool" where
  "startswith s [] = True"
| "startswith [] (p # ps) = False"
| "startswith (c # cs) (p # ps) = (c = p \<and> startswith cs ps)"

text \<open>\<^verbatim>\<open>sub in text\<close> on strings: substring containment.\<close>

fun py_in :: "string \<Rightarrow> string \<Rightarrow> bool" where
  "py_in sub [] = (sub = [])"
| "py_in sub (c # cs) = (startswith (c # cs) sub \<or> py_in sub cs)"

section \<open>Regular expressions as \<^verbatim>\<open>re.search\<close> runs them\<close>

text \<open>
  The argument heuristics of \<^verbatim>\<open>workflow.py\<close> are regular expressions evaluated by
  Python's backtracking matcher, whose result depends on the order in which alternatives
  and repetition counts are tried. The syntax below covers the operators those patterns
  use; \<open>rmatch\<close> is the matcher in continuation-passing style, so that the first
  successful path in Python's priority order is the one returned.
\<close>

datatype cset = CChar char | CRange string | CSpace

datatype regex =
    Lit char
  | Cls "cset list"
  | NCls "cset list"
  | Seq regex regex
  | Alt regex regex
  | Opt regex
  | Star regex
  | LStar regex
  | Grp nat regex
  | WordB
  | Bos
  | Eos

text \<open>A matcher state: the text already passed (reversed, nearest character first, and
  including the text before the start of the match), the text still ahead, and the groups
  captured so far (latest first).\<close>

type_synonym mstate = "string \<times> string \<times> (nat \<times> string) list"

fun cset_has :: "cset \<Rightarrow> char \<Rightarrow> bool" where
  "cset_has (CChar d) c = (c = d)"
| "cset_has (CRange r) c = (c \<in> set r)"
| "cset_has CSpace c = py_isspace c"

text \<open>Under \<^verbatim>\<open>re.IGNORECASE\<close> (\<open>ic\<close>) a character also matches through its other case.\<close>

definition cls_has :: "bool \<Rightarrow> cset list \<Rightarrow> char \<Rightarrow> bool" where
  "cls_has ic items c =
     (list_ex (\<lambda>i. cset_has i c) items \<or>
      (ic \<and> (list_ex (\<lambda>i. cset_has i (lower_char c)) items \<or>
              list_ex (\<lambda>i. cset_has i (upper_char c)) items)))"

definition lit_has :: "bool \<Rightarrow> char \<Rightarrow> char \<Rightarrow> bool" where
  "lit_has ic d c = (if ic then lower_char c = lower_char d else c = d)"

definition is_word_char :: "char \<Rightarrow> bool" where
  "is_word_char c = (c \<in> set (ascii_lower @ ascii_upper @ ascii_digits @ ''_''))"

fun eat :: "(char \<Rightarrow> bool) \<Rightarrow> mstate \<Rightarrow> (mstate \<Rightarrow> mstate option) \<Rightarrow> mstate option" where
  "eat p (bef, [], g) k = None"
| "eat p (bef, c # cs, g) k = (if p c then k (c # bef, cs, g) else None)"

text \<open>\<^verbatim>\<open>\b\<close>: exactly one of the two neighbouring positions holds a word character.\<close>

definition at_boundary :: "mstate \<Rightarrow> bool" where
  "at_boundary s =
     (case s of (bef, rest, g) \<Rightarrow>
        (case bef of [] \<Rightarrow> False | b # _ \<Rightarrow> is_word_char b) \<noteq>
        (case rest of [] \<Rightarrow> False | c # _ \<Rightarrow> is_word_char c))"

text \<open>\<^verbatim>\<open>$\<close> without \<^verbatim>\<open>re.MULTILINE\<close>: the end of the text, or just before a line feed
  that ends the text.\<close>

definition at_end :: "mstate \<Rightarrow> bool" where
  "at_end s = (case s of (bef, rest, g) \<Rightarrow> rest = [] \<or> rest = [CHR 0x0A])"

definition remaining :: "mstate \<Rightarrow> nat" where
  "remaining s = (case s of (bef, rest, g) \<Rightarrow> length rest)"

definition orelse :: "'a option \<Rightarrow> 'a option \<Rightarrow> 'a option" where
  "orelse a b = (case a of Some r \<Rightarrow> Some r | None \<Rightarrow> b)"

text \<open>
  Repetition. The greedy star tries one more iteration before it tries to go on; the lazy
  star tries to go on first. Every iteration of the patterns below consumes at least one
  character, so the number of characters ahead bounds the number of iterations: the
  counter starts there and an iteration that consumed nothing is not repeated.
\<close>

primrec star_greedy ::
  "(mstate \<Rightarrow> (mstate \<Rightarrow> mstate option) \<Rightarrow> mstate option) \<Rightarrow> nat \<Rightarrow>
   mstate \<Rightarrow> (mstate \<Rightarrow> mstate option) \<Rightarrow> mstate option" where
  "star_greedy f 0 = (\<lambda>s k. k s)"
| "star_greedy f (Suc n) = (\<lambda>s k.
     orelse (f s (\<lambda>s'. if remaining s' < remaining s then star_greedy f n s' k else None))
            (k s))"

primrec star_lazy ::
  "(mstate \<Rightarrow> (mstate \<Rightarrow> mstate option) \<Rightarrow> mstate option) \<Rightarrow> nat \<Rightarrow>
   mstate \<Rightarrow> (mstate \<Rightarrow> mstate option) \<Rightarrow> mstate option" where
  "star_lazy f 0 = (\<lambda>s k. k s)"
| "star_lazy f (Suc n) = (\<lambda>s k.
     orelse (k s)
            (f s (\<lambda>s'. if remaining s' < remaining s then star_lazy f n s' k else None)))"

definition set_group :: "nat \<Rightarrow> mstate \<Rightarrow> mstate \<Rightarrow> mstate" where
  "set_group n s s' =
     (case s of (bef, rest, g) \<Rightarrow> case s' of (bef', rest', g') \<Rightarrow>
        (bef', rest', (n, take (length rest - length rest') rest) # g'))"

primrec rmatch ::
  "bool \<Rightarrow> regex \<Rightarrow> mstate \<Rightarrow> (mstate \<Rightarrow> mstate option) \<Rightarrow> mstate option" where
  "rmatch ic (Lit d) s k = eat (lit_has ic d) s k"
| "rmatch ic (Cls items) s k = eat (cls_has ic items) s k"
| "rmatch ic (NCls items) s k = eat (\<lambda>c. \<not> cls_has ic items c) s k"
| "rmatch ic (Seq a b) s k = rmatch ic a s (\<lambda>s'. rmatch ic b s' k)"
| "rmatch ic (Alt a b) s k = orelse (rmatch ic a s k) (rmatch ic b s k)"
| "rmatch ic (Opt a) s k = orelse (rmatch ic a s k) (k s)"
| "rmatch ic (Star a) s k = star_greedy (rmatch ic a) (remaining s) s k"
| "rmatch ic (LStar a) s k = star_lazy (rmatch ic a) (remaining s) s k"
| "rmatch ic (Grp n a) s k = rmatch ic a s (\<lambda>s'. k (set_group n s s'))"
| "rmatch ic WordB s k = (if at_boundary s then k s else None)"
| "rmatch ic Bos s k = (case s of (bef, rest, g) \<Rightarrow> if bef = [] then k s else None)"
| "rmatch ic Eos s k = (if at_end s then k s else None)"

text \<open>Derived forms: \<^verbatim>\<open>a+\<close>, \<^verbatim>\<open>a+?\<close>, a literal word, a sequence, an alternation.\<close>

definition Plus :: "regex \<Rightarrow> regex" where
  "Plus a = Seq a (Star a)"

definition LPlus :: "regex \<Rightarrow> regex" where
  "LPlus a = Seq a (LStar a)"

fun Str :: "string \<Rightarrow> regex" where
  "Str [] = Opt (Cls [])"
| "Str [c] = Lit c"
| "Str (c # cs) = Seq (Lit c) (Str cs)"

fun Seqs :: "regex list \<Rightarrow> regex" where
  "Seqs [] = Opt (Cls [])"
| "Seqs [r] = r"
| "Seqs (r # rs) = Seq r (Seqs rs)"

fun Alts :: "regex list \<Rightarrow> regex" where
  "Alts [] = Cls []"
| "Alts [r] = r"
| "Alts (r # rs) = Alt r (Alts rs)"

text \<open>\<^verbatim>\<open>re.search\<close>: the match at the leftmost start position that has one. The result is
  the start offset and the final matcher state.\<close>

fun search_from :: "bool \<Rightarrow> regex \<Rightarrow> string \<Rightarrow> string \<Rightarrow> (nat \<times> mstate) option" where
  "search_from ic r bef [] =
     (case rmatch ic r (bef, [], []) Some of
        Some m \<Rightarrow> Some (length bef, m)
      | None \<Rightarrow> None)"
| "search_from ic r bef (c # cs) =
     (case rmatch ic r (bef, c # cs, []) Some of
        Some m \<Rightarrow> Some (length bef, m)
      | None \<Rightarrow> search_from ic r (c # bef) cs)"

definition re_search :: "bool \<Rightarrow> regex \<Rightarrow> string \<Rightarrow> (nat \<times> mstate) option" where
  "re_search ic r text = search_from ic r [] text"

text \<open>\<^verbatim>\<open>match.group(n)\<close>. Group 1 lies on every path of each pattern below, so a
  successful match always has it; the empty text stands for a group that took no part.\<close>

definition mgroup :: "nat \<times> mstate \<Rightarrow> nat \<Rightarrow> string" where
  "mgroup m n = (case m of (start, bef, rest, g) \<Rightarrow>
     (case map_of g n of Some t \<Rightarrow> t | None \<Rightarrow> []))"

text \<open>\<^verbatim>\<open>re.sub(pattern, '', text)\<close>: every non-overlapping match, leftmost first, is
  deleted. The three patterns it is used with cannot match the empty text; the scan stops
  at a match that consumed nothing.\<close>

primrec sub_from :: "nat \<Rightarrow> bool \<Rightarrow> regex \<Rightarrow> string \<Rightarrow> string \<Rightarrow> string" where
  "sub_from 0 ic r bef rest = rest"
| "sub_from (Suc n) ic r bef rest =
     (case search_from ic r bef rest of
        None \<Rightarrow> rest
      | Some (start, bef', rest', g) \<Rightarrow>
          (if length rest' < length rest
           then take (start - length bef) rest @ sub_from n ic r bef' rest'
           else rest))"

definition re_sub_delete :: "bool \<Rightarrow> regex \<Rightarrow> string \<Rightarrow> string" where
  "re_sub_delete ic r text = sub_from (length text) ic r [] text"

section \<open>City extraction\<close>

definition az :: regex where
  "az = Cls [CRange ascii_lower]"

definition ws :: regex where
  "ws = Cls [CSpace]"

text \<open>\<^verbatim>\<open>\b(?:in|for)\s+([a-z]+(?:\s+[a-z]+)*?)(?:\s+weather|$|\?|,)\<close>\<close>

definition city_pattern1 :: regex where
  "city_pattern1 = Seqs [WordB, Alt (Str ''in'') (Str ''for''), Plus ws,
     Grp 1 (Seq (Plus az) (LStar (Seq (Plus ws) (Plus az)))),
     Alts [Seq (Plus ws) (Str ''weather''), Eos, Lit CHR ''?'', Lit CHR '','']]"

text \<open>\<^verbatim>\<open>\b([a-z]+(?:\s+[a-z]+)?)\s+weather\<close>\<close>

definition city_pattern2 :: regex where
  "city_pattern2 = Seqs [WordB,
     Grp 1 (Seq (Plus az) (Opt (Seq (Plus ws) (Plus az)))),
     Plus ws, Str ''weather'']"

text \<open>The loop over \<^verbatim>\<open>text.split()\<close>: the first word that starts with an upper-case
  letter and has more than two characters, joined with the next word when that one starts
  with an upper-case letter too. The words of \<^verbatim>\<open>split()\<close> are never empty.\<close>

fun first_city_word :: "string list \<Rightarrow> string option" where
  "first_city_word [] = None"
| "first_city_word (word # rest) =
     (if (case word of [] \<Rightarrow> False | c # _ \<Rightarrow> py_isupper c) \<and> length word > 2
      then (case rest of
              [] \<Rightarrow> Some word
            | nxt # _ \<Rightarrow>
                (if (case nxt of [] \<Rightarrow> False | d # _ \<Rightarrow> py_isupper d)
                 then Some (word @ '' '' @ nxt) else Some word))
      else first_city_word rest)"

definition city_map :: "(string \<times> string) list" where
  "city_map = [(''nyc'', ''New York''), (''sf'', ''San Francisco''), (''la'', ''Los Angeles'')]"

definition city_from_pattern :: "regex \<Rightarrow> string \<Rightarrow> string option" where
  "city_from_pattern r text_lower =
     (case re_search False r text_lower of
        Some m \<Rightarrow> Some (py_title (py_strip (mgroup m 1)))
      | None \<Rightarrow> None)"

definition city_from_abbreviation :: "string \<Rightarrow> string option" where
  "city_from_abbreviation text_lower =
     (case find (\<lambda>(abbr, full_name). py_in abbr text_lower) city_map of
        Some (abbr, full_name) \<Rightarrow> Some full_name
      | None \<Rightarrow> None)"

definition extract_city :: "string \<Rightarrow> string" where
  "extract_city text =
     (let text_lower = py_lower text in
      case city_from_pattern city_pattern1 text_lower of
        Some city \<Rightarrow> city
      | None \<Rightarrow>
     (case city_from_pattern city_pattern2 text_lower of
        Some city \<Rightarrow> city
      | None \<Rightarrow>
     (case first_city_word (py_split text) of
        Some city \<Rightarrow> city
      | None \<Rightarrow>
     (case city_from_abbreviation text_lower of
        Some full_name \<Rightarrow> full_name
      | None \<Rightarrow> ''New York''))))"

section \<open>Plans, tools and the tool runner\<close>

text \<open>\<^verbatim>\<open>orchestrai/schemas.py\<close>: \<^verbatim>\<open>PlanStep\<close> and \<^verbatim>\<open>TaskPlan\<close>.\<close>

record PlanStep =
  step_id :: int
  action :: string
  tools :: "string list"
  success_criteria :: string

record TaskPlan =
  goal :: string
  assumptions :: "string list"
  steps :: "PlanStep list"
  risks :: "string list"

text \<open>The argument dictionaries handed to a tool: text, integers and nested
  dictionaries, in insertion order.\<close>

datatype argval = AStr string | AInt int | ADict "(string \<times> argval) list"

type_synonym args = "(string \<times> argval) list"

text \<open>
  Exceptions (all of them subclasses of \<^verbatim>\<open>Exception\<close>): the \<^verbatim>\<open>KeyError\<close> and \<^verbatim>\<open>TypeError\<close>
  that \<^verbatim>\<open>ToolRunner.call\<close> raises, each with its message, and an exception raised by an
  external collaborator (a tool, a crew), recorded by its text \<^verbatim>\<open>str(e)\<close>.
\<close>

datatype exn = KeyError string | TypeError string | Raised string

text \<open>\<^verbatim>\<open>repr\<close> of a string and of a list of strings, which \<^verbatim>\<open>str\<close> of a \<^verbatim>\<open>KeyError\<close> and
  the formatting of \<^verbatim>\<open>list_tools()\<close> go through.\<close>

definition hex_digit :: "nat \<Rightarrow> char" where
  "hex_digit n = ''0123456789abcdef'' ! (n mod 16)"

definition repr_char :: "char \<Rightarrow> char \<Rightarrow> string" where
  "repr_char q c =
     (if c = q \<or> c = CHR 0x5C then [CHR 0x5C, c]
      else if c = CHR 0x09 then [CHR 0x5C, CHR ''t'']
      else if c = CHR 0x0A then [CHR 0x5C, CHR ''n'']
      else if c = CHR 0x0D then [CHR 0x5C, CHR ''r'']
      else if (of_char c :: nat) < 32 \<or> (of_char c :: nat) = 127
      then [CHR 0x5C, CHR ''x'', hex_digit (of_char c div 16), hex_digit (of_char c)]
      else [c])"

definition py_repr :: "string \<Rightarrow> string" where
  "py_repr s =
     (let q = (if CHR 0x27 \<in> set s \<and> \<not> CHR 0x22 \<in> set s then CHR 0x22 else CHR 0x27)
      in [q] @ concat (map (repr_char q) s) @ [q])"

fun join :: "string \<Rightarrow> string list \<Rightarrow> string" where
  "join sep [] = []"
| "join sep [x] = x"
| "join sep (x # xs) = x @ sep @ join sep xs"

definition py_repr_list :: "string list \<Rightarrow> string" where
  "py_repr_list xs = ''['' @ join '', '' (map py_repr xs) @ '']''"

fun exn_str :: "exn \<Rightarrow> string" where
  "exn_str (KeyError m) = py_repr m"
| "exn_str (TypeError m) = m"
| "exn_str (Raised m) = m"

text \<open>A tool object: its name and the two entry points \<^verbatim>\<open>ToolRunner.call\<close> looks for.
  The value a tool returns is represented by its text \<^verbatim>\<open>str(result)\<close>, which is all the
  engine keeps of it.\<close>

record Tool =
  name :: string
  ainvoke :: "(args \<Rightarrow> exn + string) option"
  invoke :: "(args \<Rightarrow> exn + string) option"

text \<open>Python dictionaries keep insertion order; assigning to a key that is present
  replaces the value in place.\<close>

definition dict_has :: "('k \<times> 'v) list \<Rightarrow> 'k \<Rightarrow> bool" where
  "dict_has d k = (k \<in> set (map fst d))"

definition dict_set :: "('k \<times> 'v) list \<Rightarrow> 'k \<Rightarrow> 'v \<Rightarrow> ('k \<times> 'v) list" where
  "dict_set d k v =
     (if dict_has d k then map (\<lambda>(k', v'). if k' = k then (k', v) else (k', v')) d
      else d @ [(k, v)])"

text \<open>\<^verbatim>\<open>mcp_tools.get_tool_names\<close>: the sorted set of tool names.\<close>

definition get_tool_names :: "Tool list \<Rightarrow> string list" where
  "get_tool_names tls = sort (remdups (map name tls))"

text \<open>\<^verbatim>\<open>ToolRunner.__init__\<close>: \<^verbatim>\<open>by_name\<close> holds every tool with a non-empty name.\<close>

definition ToolRunner :: "Tool list \<Rightarrow> (string \<times> Tool) list" where
  "ToolRunner tls = foldl (\<lambda>d t. if name t \<noteq> [] then dict_set d (name t) t else d) [] tls"

definition list_tools :: "(string \<times> Tool) list \<Rightarrow> string list" where
  "list_tools by_name = sort (map fst by_name)"

definition ToolRunner_call :: "(string \<times> Tool) list \<Rightarrow> string \<Rightarrow> args \<Rightarrow> exn + string" where
  "ToolRunner_call by_name tool_name a =
     (case map_of by_name tool_name of
        None \<Rightarrow> Inl (KeyError (''Tool '' @ [CHR 0x27] @ tool_name @ [CHR 0x27] @
                     '' not found. Available: '' @ py_repr_list (list_tools by_name)))
      | Some tool \<Rightarrow>
          (let a' = (if tool_name = ''get_weather'' then
                       (case map_of a ''city'' of
                          Some city \<Rightarrow>
                            [(''location'', ADict [(''city'', city), (''state'', AStr []),
                                                   (''country'', AStr ''US'')])]
                        | None \<Rightarrow> a)
                     else a)
           in case ainvoke tool of
                Some f \<Rightarrow> f a'
              | None \<Rightarrow>
                  (case invoke tool of
                     Some f \<Rightarrow> f a'
                   | None \<Rightarrow> Inl (TypeError (''Tool '' @ [CHR 0x27] @ tool_name @ [CHR 0x27] @
                                   '' is not invokable'')))))"

section \<open>Argument heuristics of the dispatch engine\<close>

definition nl :: string where
  "nl = [CHR 0x0A]"

definition default_repo :: string where
  "default_repo = ''deepmehta27/mcp-navigator-test''"

text \<open>\<^verbatim>\<open>[a-zA-Z0-9_-]+/[a-zA-Z0-9_-]+\<close>\<close>

definition namech :: regex where
  "namech = Cls [CRange ascii_lower, CRange ascii_upper, CRange ascii_digits,
                 CChar CHR ''_'', CChar CHR ''-'']"

definition repo_name :: regex where
  "repo_name = Seqs [Plus namech, Lit CHR ''/'', Plus namech]"

text \<open>\<^verbatim>\<open>(?:in|for)\s+(?:repo\s+)?(NAME)\<close>, and the same with \<^verbatim>\<open>in|for|from\<close>.\<close>

definition repo_pattern :: "string list \<Rightarrow> regex" where
  "repo_pattern preps = Seqs [Alts (map Str preps), Plus ws,
     Opt (Seq (Str ''repo'') (Plus ws)), Grp 1 repo_name]"

definition find_repo :: "string list \<Rightarrow> string \<Rightarrow> string" where
  "find_repo preps user_goal =
     (case re_search False (repo_pattern preps) user_goal of
        Some m \<Rightarrow> mgroup m 1
      | None \<Rightarrow> default_repo)"

text \<open>\<^verbatim>\<open>owner, repo = repo_full.split('/')\<close>: both the matched group and the default hold
  exactly one slash.\<close>

definition split_repo :: "string \<Rightarrow> string \<times> string" where
  "split_repo repo_full =
     (takeWhile (\<lambda>c. c \<noteq> CHR ''/'') repo_full, drop 1 (dropWhile (\<lambda>c. c \<noteq> CHR ''/'') repo_full))"

definition quote_cls :: "cset list" where
  "quote_cls = [CChar (CHR 0x22), CChar (CHR 0x27)]"

text \<open>\<^verbatim>\<open>["\']([^"\']+)["\']\<close>\<close>

definition quoted_pattern :: regex where
  "quoted_pattern = Seqs [Cls quote_cls, Grp 1 (Plus (NCls quote_cls)), Cls quote_cls]"

text \<open>\<^verbatim>\<open>(?:issue|titled|called|named)\s+["\']?([^"\']+?)["\']?(?:\s+(?:in|for|repo)|$)\<close>\<close>

definition keyword_pattern :: regex where
  "keyword_pattern = Seqs [Alts [Str ''issue'', Str ''titled'', Str ''called'', Str ''named''],
     Plus ws, Opt (Cls quote_cls), Grp 1 (LPlus (NCls quote_cls)), Opt (Cls quote_cls),
     Alt (Seq (Plus ws) (Alts [Str ''in'', Str ''for'', Str ''repo''])) Eos]"

text \<open>\<^verbatim>\<open>create\s+(?:a\s+)?(?:github\s+)?issue\s+(?:about|for|on|titled)?\s*\<close>\<close>

definition boilerplate1 :: regex where
  "boilerplate1 = Seqs [Str ''create'', Plus ws, Opt (Seq (Str ''a'') (Plus ws)),
     Opt (Seq (Str ''github'') (Plus ws)), Str ''issue'', Plus ws,
     Opt (Alts [Str ''about'', Str ''for'', Str ''on'', Str ''titled'']), Star ws]"

text \<open>\<^verbatim>\<open>\s*(?:and\s+)?(?:in|for)\s+repo\s+NAME\<close>\<close>

definition boilerplate2 :: regex where
  "boilerplate2 = Seqs [Star ws, Opt (Seq (Str ''and'') (Plus ws)),
     Alt (Str ''in'') (Str ''for''), Plus ws, Str ''repo'', Plus ws, repo_name]"

text \<open>\<^verbatim>\<open>^\s*(?:and|then)\s+\<close>\<close>

definition boilerplate3 :: regex where
  "boilerplate3 = Seqs [Bos, Star ws, Alt (Str ''and'') (Str ''then''), Plus ws]"

definition issue_title :: "string \<Rightarrow> string" where
  "issue_title user_goal =
     (case re_search False quoted_pattern user_goal of
        Some m \<Rightarrow> mgroup m 1
      | None \<Rightarrow>
     (case re_search True keyword_pattern user_goal of
        Some m \<Rightarrow> py_strip (mgroup m 1)
      | None \<Rightarrow>
          (let t1 = re_sub_delete True boilerplate1 user_goal;
               t2 = py_strip (re_sub_delete False boilerplate2 t1)
           in py_strip (re_sub_delete True boilerplate3 t2))))"

definition issue_body :: "string \<Rightarrow> (string \<times> string) list \<Rightarrow> string" where
  "issue_body user_goal results =
     (if results \<noteq> [] then
        ''## Automated Issue Summary'' @ nl @ nl @
        ''**Generated from:** '' @ user_goal @ nl @ nl @
        ''---'' @ nl @ nl @
        concat (map (\<lambda>(tool_name_prev, result_data).
                  if tool_name_prev = ''create_issue'' then []
                  else ''### Results from `'' @ tool_name_prev @ ''`'' @ nl @ nl @
                       ''```'' @ nl @
                       (if length result_data > 2000
                        then take 2000 result_data @ nl @ nl @ ''... (truncated)''
                        else result_data) @
                       nl @ ''```'' @ nl @ nl)
                results)
      else ''**Issue created via MCP Navigator**'' @ nl @ nl @ ''**Request:** '' @ user_goal)"

text \<open>\<^verbatim>\<open>(?:file|path)\s+([^\s]+)\<close>\<close>

definition path_pattern :: regex where
  "path_pattern = Seqs [Alt (Str ''file'') (Str ''path''), Plus ws, Grp 1 (Plus (NCls [CSpace]))]"

definition find_path :: "string \<Rightarrow> string \<Rightarrow> string" where
  "find_path dflt user_goal =
     (case re_search False path_pattern user_goal of
        Some m \<Rightarrow> mgroup m 1
      | None \<Rightarrow> dflt)"

definition generic_github_tool :: "string \<Rightarrow> bool" where
  "generic_github_tool tool_name =
     (list_ex (startswith tool_name) [''create_'', ''list_'', ''get_'', ''update_'', ''search_''] \<and>
      list_ex (\<lambda>x. py_in x tool_name) [''issue'', ''repo'', ''pull'', ''branch''])"

text \<open>The \<^verbatim>\<open>if\<close>/\<^verbatim>\<open>elif\<close> chain of \<^verbatim>\<open>execute_plan_tools\<close>: the arguments with which the
  one \<^verbatim>\<open>runner.call\<close> of the selected branch is made.\<close>

definition tool_args :: "string \<Rightarrow> string \<Rightarrow> (string \<times> string) list \<Rightarrow> args" where
  "tool_args tool_name user_goal results =
     (if tool_name = ''tavily_search'' then
        [(''query'', AStr user_goal), (''max_results'', AInt 10)]
      else if tool_name = ''get_weather'' then
        [(''city'', AStr (extract_city user_goal))]
      else if tool_name = ''create_issue'' then
        (case split_repo (find_repo [''in'', ''for''] user_goal) of (owner, repo) \<Rightarrow>
           (let title = issue_title user_goal in
            [(''owner'', AStr owner), (''repo'', AStr repo),
             (''title'', AStr (if title \<noteq> [] then title else user_goal)),
             (''body'', AStr (issue_body user_goal results))]))
      else if tool_name = ''list_issues'' then
        (case split_repo (find_repo [''in'', ''for'', ''from''] user_goal) of (owner, repo) \<Rightarrow>
           [(''owner'', AStr owner), (''repo'', AStr repo),
            (''perPage'', AInt 100), (''state'', AStr ''all'')])
      else if tool_name = ''get_file_contents'' then
        (case split_repo (find_repo [''in'', ''for'', ''from''] user_goal) of (owner, repo) \<Rightarrow>
           [(''owner'', AStr owner), (''repo'', AStr repo),
            (''path'', AStr (find_path ''README.md'' user_goal))])
      else if tool_name = ''create_or_update_file'' then
        (case split_repo (find_repo [''in'', ''for''] user_goal) of (owner, repo) \<Rightarrow>
           [(''owner'', AStr owner), (''repo'', AStr repo),
            (''path'', AStr (find_path ''test.txt'' user_goal)),
            (''content'', AStr (''Updated via MCP Navigator: '' @ user_goal)),
            (''message'', AStr ''Update from MCP Navigator'')])
      else if generic_github_tool tool_name then
        (case re_search False (repo_pattern [''in'', ''for'', ''from'']) user_goal of
           Some m \<Rightarrow>
             (case split_repo (mgroup m 1) of (owner, repo) \<Rightarrow>
                [(''owner'', AStr owner), (''repo'', AStr repo)])
         | None \<Rightarrow> [])
      else [])"

section \<open>The dispatch engine\<close>

text \<open>
  \<^verbatim>\<open>execute_plan_tools\<close>. The state of the two nested loops is the \<^verbatim>\<open>results\<close> dictionary
  together with a log of the calls made to \<^verbatim>\<open>runner.call\<close> (the log is not a variable of
  the program: it records which tools were invoked, in which order and with which
  arguments). One pass of the inner loop body is \<open>execute_tool\<close>: a name already in
  \<^verbatim>\<open>results\<close> is skipped; otherwise the tool is called once, inside the \<^verbatim>\<open>try\<close>, and
  either its result text (cut to 2000 characters) or the text of the exception is stored.
\<close>

type_synonym dispatch_state = "(string \<times> string) list \<times> (string \<times> args) list"

definition execute_tool ::
  "(string \<times> Tool) list \<Rightarrow> string \<Rightarrow> dispatch_state \<Rightarrow> string \<Rightarrow> dispatch_state" where
  "execute_tool runner user_goal st tool_name =
     (case st of (results, calls) \<Rightarrow>
        if dict_has results tool_name then (results, calls)
        else
          (let a = tool_args tool_name user_goal results in
           case ToolRunner_call runner tool_name a of
             Inr result_str \<Rightarrow>
               (dict_set results tool_name
                  (if length result_str > 2000 then take 2000 result_str else result_str),
                calls @ [(tool_name, a)])
           | Inl e \<Rightarrow>
               (dict_set results tool_name (''Error: '' @ exn_str e),
                calls @ [(tool_name, a)])))"

definition execute_step ::
  "(string \<times> Tool) list \<Rightarrow> string \<Rightarrow> dispatch_state \<Rightarrow> PlanStep \<Rightarrow> dispatch_state" where
  "execute_step runner user_goal st step =
     (if tools step = [] then st else foldl (execute_tool runner user_goal) st (tools step))"

definition execute_plan_tools_logged ::
  "TaskPlan \<Rightarrow> (string \<times> Tool) list \<Rightarrow> string \<Rightarrow> dispatch_state" where
  "execute_plan_tools_logged plan runner user_goal =
     foldl (execute_step runner user_goal) ([], []) (steps plan)"

definition execute_plan_tools ::
  "TaskPlan \<Rightarrow> (string \<times> Tool) list \<Rightarrow> string \<Rightarrow> (string \<times> string) list" where
  "execute_plan_tools plan runner user_goal = fst (execute_plan_tools_logged plan runner user_goal)"

section \<open>Plan sanitising and the tool allow-list gate\<close>

text \<open>
  The ways a run of \<^verbatim>\<open>run_orchestration\<close> ends with an exception: an exception of an
  external call that the code does not catch (\<open>Propagated\<close>); the \<^verbatim>\<open>RuntimeError\<close> raised
  when the planner's text does not parse as a \<^verbatim>\<open>TaskPlan\<close>, which carries the raw text;
  the \<^verbatim>\<open>RuntimeError\<close> raised for a tool outside the allow-list, whose message names the
  tool and the \<^verbatim>\<open>step_id\<close> of its step (and lists the allowed tools and the plan); and the
  \<^verbatim>\<open>ValidationError\<close> that leaves \<^verbatim>\<open>judge_run\<close> when the repaired response does not parse
  either.
\<close>

datatype run_error =
    Propagated exn
  | PlanFormatError string
  | PlanToolError string int
  | JudgeFormatError

text \<open>Lines 313 to 318 of \<^verbatim>\<open>workflow.py\<close>: the code fence around the planner's output is
  removed.\<close>

definition sanitize :: "string \<Rightarrow> string" where
  "sanitize raw =
     (let raw_plan = py_strip raw in
      if startswith raw_plan ''```'' then
        (let unfenced = py_strip (py_strip_chars ''`'' raw_plan) in
         if startswith (py_lower unfenced) ''json'' then py_strip (drop 4 unfenced)
         else unfenced)
      else raw_plan)"

text \<open>Lines 336 to 343: the two nested loops over the steps and over each step's tools.
  The first tool that is not in \<open>allowed\<close> raises. (The code has this loop inline; the
  name is the specification's.)\<close>

fun validate_steps :: "string list \<Rightarrow> PlanStep list \<Rightarrow> run_error + unit" where
  "validate_steps allowed [] = Inr ()"
| "validate_steps allowed (step # rest) =
     (case find (\<lambda>tool. \<not> tool \<in> set allowed) (tools step) of
        Some tool \<Rightarrow> Inl (PlanToolError tool (step_id step))
      | None \<Rightarrow> validate_steps allowed rest)"

definition validate_tools :: "TaskPlan \<Rightarrow> string list \<Rightarrow> run_error + unit" where
  "validate_tools plan allowed = validate_steps allowed (steps plan)"

section \<open>The judge\<close>

text \<open>\<^verbatim>\<open>JudgeScore\<close> of \<^verbatim>\<open>eval/judge.py\<close>; its field \<^verbatim>\<open>notes\<close> is \<open>score_notes\<close> here.\<close>

record JudgeScore =
  success :: int
  plan_quality :: int
  reasoning_quality :: int
  score_notes :: string

text \<open>
  \<^verbatim>\<open>JudgeScore.model_validate_json\<close> is the validation library's; what the repository
  declares is the schema: four required fields, the three scores of type \<^verbatim>\<open>int\<close> with
  \<^verbatim>\<open>ge=0\<close> and \<^verbatim>\<open>le=5\<close>. The library is a parameter: \<open>json_object\<close> decodes a text into the
  fields of a JSON object (\<open>None\<close> when the text is not one), \<open>as_int\<close> and \<open>as_str\<close> read
  a JSON value at the declared type (\<open>None\<close> when the library rejects it). The bounds
  are checked on the integer read; \<open>None\<close> stands for the \<^verbatim>\<open>ValidationError\<close>.
\<close>

record 'j json_lib =
  json_object :: "string \<Rightarrow> (string \<Rightarrow> 'j option) option"
  as_int :: "'j \<Rightarrow> int option"
  as_str :: "'j \<Rightarrow> string option"

definition score_field :: "'j json_lib \<Rightarrow> (string \<Rightarrow> 'j option) \<Rightarrow> string \<Rightarrow> int option" where
  "score_field lib obj key =
     (case obj key of
        None \<Rightarrow> None
      | Some v \<Rightarrow>
          (case as_int lib v of
             None \<Rightarrow> None
           | Some n \<Rightarrow> if 0 \<le> n \<and> n \<le> 5 then Some n else None))"

definition text_field :: "'j json_lib \<Rightarrow> (string \<Rightarrow> 'j option) \<Rightarrow> string \<Rightarrow> string option" where
  "text_field lib obj key = (case obj key of None \<Rightarrow> None | Some v \<Rightarrow> as_str lib v)"

definition JudgeScore_validate :: "'j json_lib \<Rightarrow> string \<Rightarrow> JudgeScore option" where
  "JudgeScore_validate lib raw =
     (case json_object lib raw of
        None \<Rightarrow> None
      | Some obj \<Rightarrow>
          (case score_field lib obj ''success'' of None \<Rightarrow> None | Some s \<Rightarrow>
          (case score_field lib obj ''plan_quality'' of None \<Rightarrow> None | Some p \<Rightarrow>
          (case score_field lib obj ''reasoning_quality'' of None \<Rightarrow> None | Some r \<Rightarrow>
          (case text_field lib obj ''notes'' of None \<Rightarrow> None | Some n \<Rightarrow>
             Some \<lparr>success = s, plan_quality = p, reasoning_quality = r, score_notes = n\<rparr>)))))"

text \<open>The two prompts of \<^verbatim>\<open>judge_run\<close>. \<open>schema\<close> is the text of
  \<^verbatim>\<open>JudgeScore.model_json_schema()\<close> and \<open>plan\<close> the text of the plan dictionary, as the
  f-strings insert them.\<close>

definition judge_prompt :: "string \<Rightarrow> string \<Rightarrow> string \<Rightarrow> string \<Rightarrow> string option \<Rightarrow> string" where
  "judge_prompt schema goal_text plan final_ans trace =
     ''You are a strict evaluator for a multi-agent tool orchestration system.'' @ nl @
     ''Score from 0 to 5 (integers) for each category:'' @ nl @
     ''- success: does the final answer satisfy the goal?'' @ nl @
     ''- plan_quality: is the plan step-by-step, realistic, and correctly scoped?'' @ nl @
     ''- tool_use_quality: are the selected tools appropriate and used sensibly?'' @ nl @ nl @
     ''Return ONLY valid JSON that matches this schema exactly:'' @ nl @
     schema @ nl @ nl @
     ''GOAL:'' @ nl @ goal_text @ nl @ nl @
     ''PLAN (JSON):'' @ nl @ plan @ nl @ nl @
     ''FINAL ANSWER:'' @ nl @ final_ans @ nl @ nl @
     (case trace of
        None \<Rightarrow> []
      | Some t \<Rightarrow> if t \<noteq> [] then ''TRACE:'' @ nl @ take 6000 t @ nl else [])"

definition fix_prompt :: "string \<Rightarrow> string \<Rightarrow> string" where
  "fix_prompt schema raw =
     ''Return ONLY valid JSON for this schema. No markdown, no prose.'' @ nl @
     schema @ nl @ nl @
     ''Original response:'' @ nl @ raw"

text \<open>
  \<^verbatim>\<open>judge_run\<close>. \<open>llm\<close> is \<^verbatim>\<open>llm.invoke(prompt).content\<close>: the response text, or the
  exception of the call, which nothing catches. The second component of the result is
  the list of prompts sent, in order.
\<close>

definition judge_run ::
  "'j json_lib \<Rightarrow> (string \<Rightarrow> exn + string) \<Rightarrow> string \<Rightarrow>
   string \<Rightarrow> string \<Rightarrow> string \<Rightarrow> string option \<Rightarrow> (run_error + JudgeScore) \<times> string list" where
  "judge_run lib llm schema goal_text plan final_ans trace =
     (let prompt = judge_prompt schema goal_text plan final_ans trace in
      case llm prompt of
        Inl e \<Rightarrow> (Inl (Propagated e), [prompt])
      | Inr raw \<Rightarrow>
          (case JudgeScore_validate lib raw of
             Some score \<Rightarrow> (Inr score, [prompt])
           | None \<Rightarrow>
               (let fix = fix_prompt schema raw in
                case llm fix of
                  Inl e \<Rightarrow> (Inl (Propagated e), [prompt, fix])
                | Inr raw2 \<Rightarrow>
                    (case JudgeScore_validate lib raw2 of
                       Some score \<Rightarrow> (Inr score, [prompt, fix])
                     | None \<Rightarrow> (Inl JudgeFormatError, [prompt, fix])))))"

section \<open>The metrics log\<close>

text \<open>\<^verbatim>\<open>MetricEntry\<close> of \<^verbatim>\<open>orchestrai/metrics.py\<close>. The field \<^verbatim>\<open>goal\<close> is \<open>entry_goal\<close> here
  (the plan has a field of the same name). The execution time is a float in the code; its
  value is kept as a rational number.\<close>

record MetricEntry =
  timestamp :: string
  entry_goal :: string
  goal_type :: string
  success_score :: int
  plan_score :: int
  reasoning_score :: int
  execution_time_seconds :: rat
  completed :: bool
  errors :: "string list"
  tools_used :: "string list"

text \<open>
  The storage file is its text, or \<open>None\<close> while the file does not exist.
  \<^verbatim>\<open>json.dumps(asdict(entry))\<close> and \<^verbatim>\<open>MetricEntry(**json.loads(line))\<close> belong to the
  standard library and are parameters (\<open>dumps\<close>, and \<open>loads\<close> with \<open>None\<close> for any
  exception); the file handling is the repository's. \<^verbatim>\<open>log\<close> opens the file for
  appending, which creates it, and writes one line.
\<close>

definition metrics_log :: "(MetricEntry \<Rightarrow> string) \<Rightarrow> string option \<Rightarrow> MetricEntry \<Rightarrow> string option" where
  "metrics_log dumps file entry =
     Some ((case file of None \<Rightarrow> [] | Some content \<Rightarrow> content) @ dumps entry @ nl)"

text \<open>Reading in text mode: a carriage return, alone or before a line feed, is read as a
  line feed; the file iterator yields the lines with their line feed, the last one
  possibly without.\<close>

fun universal_newlines :: "string \<Rightarrow> string" where
  "universal_newlines [] = []"
| "universal_newlines (c # cs) =
     (if c = CHR 0x0D then
        (case cs of
           [] \<Rightarrow> nl
         | d # ds \<Rightarrow> if d = CHR 0x0A then CHR 0x0A # universal_newlines ds
                     else CHR 0x0A # universal_newlines cs)
      else c # universal_newlines cs)"

fun lines_from :: "string \<Rightarrow> string \<Rightarrow> string list" where
  "lines_from cur [] = (if cur = [] then [] else [rev cur])"
| "lines_from cur (c # cs) =
     (if c = CHR 0x0A then rev (c # cur) # lines_from [] cs else lines_from (c # cur) cs)"

definition file_lines :: "string \<Rightarrow> string list" where
  "file_lines content = lines_from [] (universal_newlines content)"

text \<open>The loop of \<^verbatim>\<open>load_all\<close>: blank lines are skipped, and a line that does not load
  ends the whole read with its exception (\<open>None\<close>).\<close>

fun load_lines :: "(string \<Rightarrow> MetricEntry option) \<Rightarrow> string list \<Rightarrow> MetricEntry list option" where
  "load_lines loads [] = Some []"
| "load_lines loads (line # rest) =
     (if py_strip line \<noteq> [] then
        (case loads line of
           None \<Rightarrow> None
         | Some entry \<Rightarrow>
             (case load_lines loads rest of
                None \<Rightarrow> None
              | Some entries \<Rightarrow> Some (entry # entries)))
      else load_lines loads rest)"

definition load_all :: "(string \<Rightarrow> MetricEntry option) \<Rightarrow> string option \<Rightarrow> MetricEntry list option" where
  "load_all loads file =
     (case file of
        None \<Rightarrow> Some []
      | Some content \<Rightarrow> load_lines loads (file_lines content))"

section \<open>Trend and goal category\<close>

text \<open>Python slices \<^verbatim>\<open>xs[i:]\<close> and \<^verbatim>\<open>xs[i:j]\<close> with integer bounds: a negative bound counts
  from the end, and every bound is clamped to the list.\<close>

definition slice_bound :: "nat \<Rightarrow> int \<Rightarrow> nat" where
  "slice_bound n i = (if i < 0 then nat (max 0 (int n + i)) else min n (nat i))"

definition py_slice_from :: "'a list \<Rightarrow> int \<Rightarrow> 'a list" where
  "py_slice_from xs i = drop (slice_bound (length xs) i) xs"

definition py_slice :: "'a list \<Rightarrow> int \<Rightarrow> int \<Rightarrow> 'a list" where
  "py_slice xs i j =
     take (slice_bound (length xs) j - slice_bound (length xs) i)
          (drop (slice_bound (length xs) i) xs)"

datatype stats_error = StatisticsError

text \<open>\<^verbatim>\<open>statistics.mean\<close> on integers: the exact mean, and an exception on no data. (The
  library rounds a mean that is not an integer to the nearest float; the model keeps the
  exact value.)\<close>

definition mean :: "int list \<Rightarrow> stats_error + rat" where
  "mean xs = (if xs = [] then Inl StatisticsError
              else Inr (of_int (sum_list xs) / of_nat (length xs)))"

text \<open>\<^verbatim>\<open>MetricsTracker._calculate_trend\<close>\<close>

definition calculate_trend :: "MetricEntry list \<Rightarrow> int \<Rightarrow> stats_error + string" where
  "calculate_trend entries window =
     (if int (length entries) < window * 2 then Inr ''insufficient_data''
      else
        (let recent = py_slice_from entries (- window);
             previous = py_slice entries (- window * 2) (- window) in
         case mean (map success_score recent) of
           Inl e \<Rightarrow> Inl e
         | Inr recent_avg \<Rightarrow>
             (case mean (map success_score previous) of
                Inl e \<Rightarrow> Inl e
              | Inr previous_avg \<Rightarrow>
                  (let diff = recent_avg - previous_avg in
                   if diff > 1 / 2 then Inr ''improving''
                   else if diff < - (1 / 2) then Inr ''declining''
                   else Inr ''stable''))))"

text \<open>\<^verbatim>\<open>infer_goal_type\<close>\<close>

definition infer_goal_type :: "string \<Rightarrow> string" where
  "infer_goal_type goal_text =
     (let goal_lower = py_lower goal_text in
      if list_ex (\<lambda>w. py_in w goal_lower) [''weather'', ''temperature'', ''forecast''] then ''weather''
      else if list_ex (\<lambda>w. py_in w goal_lower) [''search'', ''find'', ''look''] then ''search''
      else if list_ex (\<lambda>w. py_in w goal_lower) [''issue'', ''repo'', ''github'', ''pull''] then ''github''
      else ''other'')"

section \<open>The orchestration run\<close>

text \<open>\<^verbatim>\<open>ExecutionResult\<close> of \<^verbatim>\<open>schemas.py\<close>, with the five entries of its \<^verbatim>\<open>outputs\<close>
  dictionary as the fields \<open>out_...\<close>; \<^verbatim>\<open>goal\<close>, \<^verbatim>\<open>completed\<close> and \<^verbatim>\<open>errors\<close> are
  \<open>res_goal\<close>, \<open>res_completed\<close> and \<open>res_errors\<close> here.\<close>

record ExecutionResult =
  res_goal :: string
  res_completed :: bool
  out_plan :: TaskPlan
  out_research :: string
  out_judge :: JudgeScore
  out_tool_results :: "(string \<times> string) list"
  out_execution_time :: rat
  res_errors :: "string list"
  final_answer :: string

text \<open>
  What a run takes from outside the repository. Each external call is made at most once
  per run with a given input, so its behaviour during one run is a function of that input:
  \<^item> \<open>planner_kickoff\<close>: the planner crew, from the goal and the text of the allowed tool
    names that its prompt embeds, to the text of its output or the exception it raises;
  \<^item> \<open>parse_plan\<close>: \<^verbatim>\<open>TaskPlan.model_validate_json\<close> (\<open>None\<close> for a \<^verbatim>\<open>ValidationError\<close>);
  \<^item> \<open>executor_kickoff\<close>: the executor crew, from the plan, the tool results and the goal
    that its task description embeds;
  \<^item> \<open>llm_invoke\<close>, \<open>judge_lib\<close>, \<open>score_schema\<close>, \<open>plan_repr\<close>: the judge's model, the
    validation library, and the texts of the score schema and of the plan dictionary;
  \<^item> \<open>now_iso\<close>, \<open>elapsed\<close>: the clock readings;
  \<^item> \<open>set_order\<close>: the order in which \<^verbatim>\<open>list(set(tools_used))\<close> lists the names;
  \<^item> \<open>dumps\<close>: \<^verbatim>\<open>json.dumps(asdict(entry))\<close>.
\<close>

record 'j env =
  planner_kickoff :: "string \<Rightarrow> string \<Rightarrow> exn + string"
  parse_plan :: "string \<Rightarrow> TaskPlan option"
  executor_kickoff :: "TaskPlan \<Rightarrow> (string \<times> string) list \<Rightarrow> string \<Rightarrow> exn + string"
  llm_invoke :: "string \<Rightarrow> exn + string"
  judge_lib :: "'j json_lib"
  score_schema :: string
  plan_repr :: "TaskPlan \<Rightarrow> string"
  now_iso :: string
  elapsed :: rat
  set_order :: "string list \<Rightarrow> string list"
  dumps :: "MetricEntry \<Rightarrow> string"

text \<open>What is observed of a run: the value returned or the exception raised, the metrics
  file afterwards, the calls made to the tool runner, and the prompts sent to the judge's
  model.\<close>

record run_outcome =
  outcome :: "run_error + ExecutionResult"
  metrics_file :: "string option"
  tool_calls :: "(string \<times> args) list"
  judge_prompts :: "string list"

definition research_output :: "string \<Rightarrow> string" where
  "research_output user_goal =
     ''{'' @ [CHR 0x22] @ ''query'' @ [CHR 0x22] @ '': '' @ [CHR 0x22] @ user_goal @
     [CHR 0x22] @ '', '' @ [CHR 0x22] @ ''findings'' @ [CHR 0x22] @ '': [], '' @
     [CHR 0x22] @ ''notes'' @ [CHR 0x22] @ '': '' @ [CHR 0x22] @
     ''Skipped - using tool results directly'' @ [CHR 0x22] @ ''}''"

text \<open>Lines 440 to 444: the tools named by the plan, without duplicates.\<close>

definition plan_tools_used :: "'j env \<Rightarrow> TaskPlan \<Rightarrow> string list" where
  "plan_tools_used ev plan =
     set_order ev (concat (map (\<lambda>step. if tools step \<noteq> [] then tools step else []) (steps plan)))"

text \<open>
  \<^verbatim>\<open>run_orchestration\<close>, from the planner call to the returned \<^verbatim>\<open>ExecutionResult\<close>. An
  exception leaves the function at the point where it is raised: the metrics file is then
  as it was, and only the calls made so far are in the logs. Only the executor call is
  inside a \<^verbatim>\<open>try\<close>.
\<close>

definition run_orchestration ::
  "'j env \<Rightarrow> string \<Rightarrow> Tool list \<Rightarrow> string option \<Rightarrow> run_outcome" where
  "run_orchestration ev user_goal tls file =
     (let runner = ToolRunner tls;
          allowed_tools = join '', '' (get_tool_names tls) in
      case planner_kickoff ev user_goal allowed_tools of
        Inl e \<Rightarrow>
          \<lparr>outcome = Inl (Propagated e), metrics_file = file, tool_calls = [], judge_prompts = []\<rparr>
      | Inr raw \<Rightarrow>
     (let raw_plan = sanitize raw in
      case parse_plan ev raw_plan of
        None \<Rightarrow>
          \<lparr>outcome = Inl (PlanFormatError raw_plan), metrics_file = file,
           tool_calls = [], judge_prompts = []\<rparr>
      | Some task_plan \<Rightarrow>
     (case validate_tools task_plan (get_tool_names tls) of
        Inl err \<Rightarrow>
          \<lparr>outcome = Inl err, metrics_file = file, tool_calls = [], judge_prompts = []\<rparr>
      | Inr u \<Rightarrow>
     (case execute_plan_tools_logged task_plan runner user_goal of (tool_results, calls) \<Rightarrow>
     (case (case executor_kickoff ev task_plan tool_results user_goal of
              Inr raw_exec \<Rightarrow> (raw_exec, True, [])
            | Inl e \<Rightarrow> (''Execution failed: '' @ exn_str e, False, [exn_str e]))
      of (raw_exec, execution_succeeded, execution_errors) \<Rightarrow>
     (case judge_run (judge_lib ev) (llm_invoke ev) (score_schema ev)
             user_goal (plan_repr ev task_plan) raw_exec None of
        (Inl err, prompts) \<Rightarrow>
          \<lparr>outcome = Inl err, metrics_file = file, tool_calls = calls, judge_prompts = prompts\<rparr>
      | (Inr judge, prompts) \<Rightarrow>
          (let metric_entry =
                 \<lparr>timestamp = now_iso ev,
                  entry_goal = user_goal,
                  goal_type = infer_goal_type user_goal,
                  success_score = success judge,
                  plan_score = plan_quality judge,
                  reasoning_score = reasoning_quality judge,
                  execution_time_seconds = elapsed ev,
                  completed = execution_succeeded,
                  errors = execution_errors,
                  tools_used = plan_tools_used ev task_plan\<rparr>
           in \<lparr>outcome = Inr \<lparr>res_goal = user_goal,
                               res_completed = execution_succeeded,
                               out_plan = task_plan,
                               out_research = research_output user_goal,
                               out_judge = judge,
                               out_tool_results = tool_results,
                               out_execution_time = elapsed ev,
                               res_errors = execution_errors,
                               final_answer = raw_exec\<rparr>,
                metrics_file = metrics_log (dumps ev) file metric_entry,
                tool_calls = calls,
                judge_prompts = prompts\<rparr>)))))))"

section \<open>Sample inputs\<close>

text \<open>Concrete inputs on which the theorems below are instantiated.\<close>

definition sample_entry :: "int \<Rightarrow> MetricEntry" where
  "sample_entry s = \<lparr>timestamp = ''2025-01-01T00:00:00'', entry_goal = ''weather in Paris'',
     goal_type = ''weather'', success_score = s, plan_score = 4, reasoning_score = 4,
     execution_time_seconds = 3 / 2, completed = True, errors = [], tools_used = [''get_weather'']\<rparr>"

section \<open>Trend classification\<close>

lemma slice_bound_neg: "0 < k \<Longrightarrow> k \<le> n \<Longrightarrow> slice_bound n (- int k) = n - k"
  by (auto simp: slice_bound_def)

lemma mean_nonempty: "xs \<noteq> [] \<Longrightarrow> mean xs = Inr (of_int (sum_list xs) / of_nat (length xs))"
  by (simp add: mean_def)

text \<open>
  Claim C5. With the window of 5 that \<^verbatim>\<open>get_stats\<close> passes, fewer than 10 entries give
  \<open>insufficient_data\<close>; otherwise the mean success score of the last 5 entries is compared
  with the mean of the 5 entries before them: a difference above 0.5 is \<open>improving\<close>,
  below -0.5 is \<open>declining\<close>, anything else \<open>stable\<close>. Entries whose success scores are
  5, 5, 5, 5, 5, 1, 1, 1, 1, 1 in chronological order are \<open>declining\<close>.
\<close>

theorem trend_classification:
  "calculate_trend entries 5 =
     (if length entries < 10 then Inr ''insufficient_data''
      else
        (let recent = map success_score (drop (length entries - 5) entries);
             previous = map success_score (take 5 (drop (length entries - 10) entries));
             diff = (of_int (sum_list recent) / 5 - of_int (sum_list previous) / 5 :: rat)
         in if diff > 1 / 2 then Inr ''improving''
            else if diff < - (1 / 2) then Inr ''declining''
            else Inr ''stable''))
   \<and> (map success_score entries = [5, 5, 5, 5, 5, 1, 1, 1, 1, 1] \<longrightarrow>
        calculate_trend entries 5 = Inr ''declining'')"
proof -
  have general: "calculate_trend es 5 =
     (if length es < 10 then Inr ''insufficient_data''
      else
        (let recent = map success_score (drop (length es - 5) es);
             previous = map success_score (take 5 (drop (length es - 10) es));
             diff = (of_int (sum_list recent) / 5 - of_int (sum_list previous) / 5 :: rat)
         in if diff > 1 / 2 then Inr ''improving''
            else if diff < - (1 / 2) then Inr ''declining''
            else Inr ''stable''))" for es
  proof (cases "length es < 10")
    case True
    then show ?thesis by (simp add: calculate_trend_def)
  next
    case False
    then have len: "10 \<le> length es" by simp
    have b5: "slice_bound (length es) (- 5) = length es - 5"
      using slice_bound_neg [of 5 "length es"] len by simp
    have b10: "slice_bound (length es) (- 10) = length es - 10"
      using slice_bound_neg [of 10 "length es"] len by simp
    have recent: "py_slice_from es (- 5) = drop (length es - 5) es"
      by (simp add: py_slice_from_def b5)
    have previous: "py_slice es (- 10) (- 5) = take 5 (drop (length es - 10) es)"
      using len by (simp add: py_slice_def b5 b10)
    have lr: "length (drop (length es - 5) es) = 5" using len by simp
    have lp: "length (take 5 (drop (length es - 10) es)) = 5" using len by simp
    have mr: "mean (map success_score (drop (length es - 5) es)) =
        Inr (of_int (sum_list (map success_score (drop (length es - 5) es))) / 5)"
      using len lr by (auto simp: mean_def)
    have mp: "mean (map success_score (take 5 (drop (length es - 10) es))) =
        Inr (of_int (sum_list (map success_score (take 5 (drop (length es - 10) es)))) / 5)"
      using len lp by (auto simp: mean_def)
    show ?thesis
      using False by (simp add: calculate_trend_def recent previous mr mp Let_def)
  qed
  have example: "calculate_trend entries 5 = Inr ''declining''"
    if h: "map success_score entries = [5, 5, 5, 5, 5, 1, 1, 1, 1, 1]"
  proof -
    have len: "length entries = 10"
      using arg_cong [OF h, of length] by simp
    have r: "map success_score (drop 5 entries) = [1, 1, 1, 1, 1]"
      using arg_cong [OF h, of "drop 5"] by (simp add: drop_map)
    have p: "map success_score (take 5 entries) = [5, 5, 5, 5, 5]"
      using arg_cong [OF h, of "take 5"] by (simp add: take_map)
    show ?thesis
      by (simp add: general len r p Let_def del: drop_map take_map)
  qed
  show ?thesis using general example by blast
qed

theorem trend_classification_witness:
  "map success_score (map sample_entry [5, 5, 5, 5, 5, 1, 1, 1, 1, 1]) = [5, 5, 5, 5, 5, 1, 1, 1, 1, 1]
   \<and> calculate_trend (map sample_entry [5, 5, 5, 5, 5, 1, 1, 1, 1, 1]) 5 = Inr ''declining''
   \<and> calculate_trend (map sample_entry [1, 2, 3]) 5 = Inr ''insufficient_data''"
proof -
  have h: "map success_score (map sample_entry [5, 5, 5, 5, 5, 1, 1, 1, 1, 1]) = [5, 5, 5, 5, 5, 1, 1, 1, 1, 1]"
    by (simp add: sample_entry_def)
  have d: "calculate_trend (map sample_entry [5, 5, 5, 5, 5, 1, 1, 1, 1, 1]) 5 = Inr ''declining''"
    using trend_classification [of "map sample_entry [5, 5, 5, 5, 5, 1, 1, 1, 1, 1]"] h by blast
  have i: "calculate_trend (map sample_entry [1, 2, 3]) 5 = Inr ''insufficient_data''"
    using trend_classification [of "map sample_entry [1, 2, 3]"] by simp
  show ?thesis using h d i by blast
qed

end
